theory Spec2Isabelle
  imports Complex_Main
begin

section \<open>Strings of the subtitle generation node\<close>

text \<open>
  A JavaScript string is a sequence of UTF-16 code units; \<open>.length\<close>, the regular
  expressions of the node (none has the \<open>u\<close> flag) and \<open>trim\<close> all work on code
  units. A code unit is modelled by its number. ASCII literals are written with
  \<open>str\<close>.
\<close>

type_synonym jsstring = "nat list"

definition str :: "string \<Rightarrow> jsstring" where
  "str s = map of_char s"

definition LF :: nat where "LF = 10"
definition CR :: nat where "CR = 13"
definition SPACE :: nat where "SPACE = 32"

text \<open>
  The class \<open>\s\<close> of a JavaScript regular expression, which is also the set that
  \<open>String.prototype.trim\<close> strips: TAB, LF, VT, FF, CR, SPACE, NBSP, U+1680,
  U+2000..U+200A, U+2028, U+2029, U+202F, U+205F, U+3000, U+FEFF.
\<close>

definition isSpace :: "nat \<Rightarrow> bool" where
  "isSpace c \<longleftrightarrow>
     (9 \<le> c \<and> c \<le> 13) \<or> c = 32 \<or> c = 160 \<or> c = 5760 \<or> (8192 \<le> c \<and> c \<le> 8202)
     \<or> c = 8232 \<or> c = 8233 \<or> c = 8239 \<or> c = 8287 \<or> c = 12288 \<or> c = 65279"

definition trim :: "jsstring \<Rightarrow> jsstring" where
  "trim s = rev (dropWhile isSpace (rev (dropWhile isSpace s)))"

text \<open>\<open>s.replace(/\r/g, '')\<close>\<close>

definition removeCR :: "jsstring \<Rightarrow> jsstring" where
  "removeCR s = filter (\<lambda>c. c \<noteq> CR) s"

text \<open>\<open>xs.join(sep)\<close>\<close>

fun join :: "jsstring \<Rightarrow> jsstring list \<Rightarrow> jsstring" where
  "join sep [] = []"
| "join sep [x] = x"
| "join sep (x # y # ys) = x @ sep @ join sep (y # ys)"

section \<open>Sentence segmenter: \<open>splitBySentences\<close>\<close>

text \<open>
  The characters of the class \<open>[\<dots>!?]\<close> of the split expression: the ideographic full
  stop U+3002, the full-width exclamation mark U+FF01 and question mark U+FF1F, and the
  ASCII \<open>!\<close> and \<open>?\<close>.
\<close>

definition isTerminator :: "nat \<Rightarrow> bool" where
  "isTerminator c \<longleftrightarrow> c = 12290 \<or> c = 65281 \<or> c = 65311 \<or> c = 33 \<or> c = 63"

text \<open>
  \<open>text.split(/([\<dots>!?]\s*|\n+)/)\<close>: the string is cut at every match of the separator,
  and, the separator being a capture group, each match is kept in the result between the
  pieces it separates. A match is a terminator followed by the longest run of white space,
  or the longest run of line feeds. \<open>pre\<close> is the piece read since the last separator.
\<close>

function splitParts :: "jsstring \<Rightarrow> jsstring \<Rightarrow> jsstring list" where
  "splitParts pre [] = [pre]"
| "splitParts pre (c # cs) =
     (if isTerminator c then
        pre # (c # takeWhile isSpace cs) # splitParts [] (dropWhile isSpace cs)
      else if c = LF then
        pre # (c # takeWhile (\<lambda>d. d = LF) cs) # splitParts [] (dropWhile (\<lambda>d. d = LF) cs)
      else splitParts (pre @ [c]) cs)"
  by pat_completeness auto
termination
  by (relation "measure (\<lambda>(pre, s). length s)")
     (auto simp: length_dropWhile_le less_Suc_eq_le)

text \<open>\<open>/^[\<dots>!?\n]+$/.test(part)\<close>\<close>

definition isTerminatorRun :: "jsstring \<Rightarrow> bool" where
  "isTerminatorRun part \<longleftrightarrow> part \<noteq> [] \<and> list_all (\<lambda>c. isTerminator c \<or> c = LF) part"

text \<open>
  The loop of \<open>splitBySentences\<close> over the parts, with its two variables \<open>sentences\<close> and
  \<open>buffer\<close>; the first equation is the code after the loop.
\<close>

fun sentenceLoop :: "jsstring list \<Rightarrow> jsstring \<Rightarrow> jsstring list \<Rightarrow> jsstring list" where
  "sentenceLoop sentences buffer [] =
     (if trim buffer \<noteq> [] then sentences @ [buffer] else sentences)"
| "sentenceLoop sentences buffer (part # parts) =
     (if part = [] then sentenceLoop sentences buffer parts
      else if isTerminatorRun part then sentenceLoop (sentences @ [buffer @ part]) [] parts
      else sentenceLoop sentences (buffer @ part) parts)"

definition splitBySentences :: "jsstring \<Rightarrow> jsstring list" where
  "splitBySentences text = sentenceLoop [] [] (splitParts [] (removeCR text))"

section \<open>Configuration and cues\<close>

text \<open>
  \<open>SubtitleGenerationNodeConfig\<close>: every field the node reads with a \<open>??\<close> default is
  optional. The two layout budgets are modelled as integers and the three timing
  constants as exact rationals (the rounding of IEEE doubles is not modelled).
\<close>

datatype SubtitleFormat = srt | vtt | ass

record HighlightConfig =
  enabled :: "bool option"
  color :: "jsstring option"
  pattern :: "jsstring option"

text \<open>
  The \<open>style\<close> block of the configuration. The five numbers that the styled header
  prints as they are (\<open>fontSize\<close>, \<open>outline\<close>, \<open>shadow\<close>, \<open>bold\<close>, \<open>alignment\<close>) are
  modelled as integers; the margins and fades, which the node rounds, as rationals.
\<close>

record StyleConfig =
  fontName :: "jsstring option"
  fontSize :: "int option"
  primaryColor :: "jsstring option"
  outlineColor :: "jsstring option"
  outline :: "int option"
  shadow :: "int option"
  backColor :: "jsstring option"
  bold :: "int option"
  alignment :: "int option"
  marginV :: "rat option"
  marginL :: "rat option"
  marginR :: "rat option"
  fadeIn :: "rat option"
  fadeOut :: "rat option"

text \<open>\<open>config.style ?? {}\<close>\<close>

definition emptyStyle :: StyleConfig where
  "emptyStyle = \<lparr>fontName = None, fontSize = None, primaryColor = None, outlineColor = None,
     outline = None, shadow = None, backColor = None, bold = None, alignment = None,
     marginV = None, marginL = None, marginR = None, fadeIn = None, fadeOut = None\<rparr>"

record SubtitleGenerationNodeConfig =
  format :: "SubtitleFormat option"
  maxCharsPerLine :: "int option"
  maxLines :: "int option"
  readingSpeed :: "rat option"
  minDuration :: "rat option"
  maxDuration :: "rat option"
  highlight :: "HighlightConfig option"
  style :: "StyleConfig option"

text \<open>\<open>SubtitleSegment\<close>: the two times are strings of the shape \<open>HH:MM:SS,mmm\<close>.\<close>

record SubtitleSegment =
  index :: nat
  startTime :: jsstring
  endTime :: jsstring
  "text" :: jsstring

text \<open>\<open>x ?? d\<close>\<close>

definition orDefault :: "'a option \<Rightarrow> 'a \<Rightarrow> 'a" where
  "orDefault x d = (case x of None \<Rightarrow> d | Some v \<Rightarrow> v)"

section \<open>Line wrapper: \<open>formatSegmentText\<close>\<close>

text \<open>\<open>text.replace(/\s+/g, ' ')\<close>: every maximal run of white space becomes one space.\<close>

function collapseSpaces :: "jsstring \<Rightarrow> jsstring" where
  "collapseSpaces [] = []"
| "collapseSpaces (c # cs) =
     (if isSpace c then SPACE # collapseSpaces (dropWhile isSpace cs)
      else c # collapseSpaces cs)"
  by pat_completeness auto
termination
  by (relation "measure length") (auto simp: length_dropWhile_le less_Suc_eq_le)

text \<open>
  \<open>for (const char of s)\<close> iterates by code point: a high surrogate followed by a low
  surrogate is one \<open>char\<close> of length 2, every other code unit is a \<open>char\<close> of length 1.
\<close>

definition isHighSurrogate :: "nat \<Rightarrow> bool" where
  "isHighSurrogate c \<longleftrightarrow> 55296 \<le> c \<and> c \<le> 56319"

definition isLowSurrogate :: "nat \<Rightarrow> bool" where
  "isLowSurrogate c \<longleftrightarrow> 56320 \<le> c \<and> c \<le> 57343"

fun codePoints :: "jsstring \<Rightarrow> jsstring list" where
  "codePoints [] = []"
| "codePoints [c] = [[c]]"
| "codePoints (c # d # cs) =
     (if isHighSurrogate c \<and> isLowSurrogate d then [c, d] # codePoints cs
      else [c] # codePoints (d # cs))"

text \<open>
  \<open>isBreakPoint\<close>: \<open>/[\<dots>.,!?\s]/.test(char)\<close>, the class holding the ideographic comma
  U+3001 and full stop U+3002, \<open>.\<close>, \<open>,\<close>, \<open>!\<close>, \<open>?\<close> and white space. The expression is
  not anchored: it asks whether some code unit of \<open>char\<close> is in the class.
\<close>

definition isBreakPoint :: "jsstring \<Rightarrow> bool" where
  "isBreakPoint char \<longleftrightarrow>
     list_ex (\<lambda>c. c = 12289 \<or> c = 12290 \<or> c = 46 \<or> c = 44 \<or> c = 33 \<or> c = 63 \<or> isSpace c) char"

text \<open>\<open>/^[,\<dots>\s]$/.test(char)\<close>: \<open>char\<close> is one code unit, a comma, U+3001, U+3002 or white space.\<close>

definition isSeparatorChar :: "jsstring \<Rightarrow> bool" where
  "isSeparatorChar char \<longleftrightarrow>
     (case char of
        [c] \<Rightarrow> c = 44 \<or> c = 12289 \<or> c = 12290 \<or> isSpace c
      | _ \<Rightarrow> False)"

text \<open>
  The loop of \<open>formatSegmentText\<close> over the \<open>char\<close>s of the sanitized text, with its
  variables \<open>lines\<close> and \<open>currentLine\<close>. The \<open>continue\<close> of the source skips the rest
  of the body, the test on \<open>lines.length\<close> included; the \<open>break\<close> empties
  \<open>currentLine\<close> and leaves the loop.
\<close>

fun wrapLoop :: "int \<Rightarrow> int \<Rightarrow> jsstring list \<Rightarrow> jsstring \<Rightarrow> jsstring list
    \<Rightarrow> jsstring list \<times> jsstring" where
  "wrapLoop maxCPL maxL lines currentLine [] = (lines, currentLine)"
| "wrapLoop maxCPL maxL lines currentLine (char # chars) =
     (let brk = (int (length currentLine) \<ge> maxCPL \<and> isBreakPoint char);
          lines1 = (if brk then lines @ [trim currentLine] else lines);
          line1 = (if brk then [] else currentLine)
      in if brk \<and> isSeparatorChar char then wrapLoop maxCPL maxL lines1 line1 chars
         else
           let line2 = line1 @ char;
               full = (int (length line2) \<ge> maxCPL);
               lines2 = (if full then lines1 @ [trim line2] else lines1);
               line3 = (if full then [] else line2)
           in if int (length lines2) = maxL then (lines2, [])
              else wrapLoop maxCPL maxL lines2 line3 chars)"

text \<open>
  \<open>xs.slice(0, end)\<close>: a negative \<open>end\<close> counts from the end of the array.
\<close>

definition sliceTo :: "int \<Rightarrow> 'a list \<Rightarrow> 'a list" where
  "sliceTo e xs = (if e < 0 then take (nat (int (length xs) + e)) xs else take (nat e) xs)"

definition formatSegmentText :: "jsstring \<Rightarrow> int \<Rightarrow> int \<Rightarrow> jsstring" where
  "formatSegmentText txt maxCPL maxL =
     (let sanitized = trim (collapseSpaces txt)
      in if int (length sanitized) \<le> maxCPL then sanitized
         else
           let (lines, currentLine) = wrapLoop maxCPL maxL [] [] (codePoints sanitized);
               lines' = (if trim currentLine \<noteq> [] \<and> int (length lines) < maxL
                         then lines @ [trim currentLine] else lines)
           in join [LF] (sliceTo maxL lines'))"

section \<open>Cue packer: \<open>splitIntoSegments\<close>\<close>

text \<open>
  The loop of \<open>splitIntoSegments\<close> over the sentences, with its variables \<open>segments\<close>,
  \<open>currentSegment\<close> and \<open>index\<close>. An empty \<open>currentSegment\<close> is falsy, so the first
  fragment never closes a cue.
\<close>

definition newSegment :: "nat \<Rightarrow> jsstring \<Rightarrow> SubtitleSegment" where
  "newSegment i t = \<lparr>index = i, startTime = [], endTime = [], text = t\<rparr>"

fun packLoop :: "int \<Rightarrow> int \<Rightarrow> SubtitleSegment list \<Rightarrow> jsstring \<Rightarrow> nat \<Rightarrow> jsstring list
    \<Rightarrow> SubtitleSegment list \<times> jsstring \<times> nat" where
  "packLoop maxCPL maxL segments currentSegment idx [] = (segments, currentSegment, idx)"
| "packLoop maxCPL maxL segments currentSegment idx (sentence # sentences) =
     (let trimmed = trim sentence
      in if trimmed = [] then packLoop maxCPL maxL segments currentSegment idx sentences
         else if currentSegment \<noteq> [] \<and> int (length (currentSegment @ trimmed)) > maxCPL * maxL
         then packLoop maxCPL maxL
                (segments @ [newSegment idx (formatSegmentText currentSegment maxCPL maxL)])
                trimmed (idx + 1) sentences
         else packLoop maxCPL maxL segments (currentSegment @ trimmed) idx sentences)"

definition splitIntoSegments :: "jsstring \<Rightarrow> SubtitleGenerationNodeConfig \<Rightarrow> SubtitleSegment list" where
  "splitIntoSegments script config =
     (let maxCPL = orDefault (maxCharsPerLine config) 42;
          maxL = orDefault (maxLines config) 2;
          (segments, currentSegment, idx) = packLoop maxCPL maxL [] [] 1 (splitBySentences script)
      in if trim currentSegment \<noteq> []
         then segments @ [newSegment idx (formatSegmentText currentSegment maxCPL maxL)]
         else segments)"

section \<open>Numbers and their decimal notation\<close>

text \<open>
  A JavaScript number is modelled as \<open>NaN\<close> or an exact rational. The infinities only
  arise from the division by a zero reading speed, which \<open>cueDuration\<close> below
  writes out; signed zeros and rounding are not modelled.
\<close>

datatype number = NaN | Num rat

fun numAdd :: "number \<Rightarrow> number \<Rightarrow> number" where
  "numAdd (Num a) (Num b) = Num (a + b)"
| "numAdd _ _ = NaN"

fun numTimes :: "number \<Rightarrow> rat \<Rightarrow> number" where
  "numTimes (Num a) k = Num (a * k)"
| "numTimes NaN k = NaN"

text \<open>\<open>x % m\<close> for a positive constant \<open>m\<close>: the remainder has the sign of \<open>x\<close>.\<close>

definition jsRem :: "rat \<Rightarrow> rat \<Rightarrow> rat" where
  "jsRem x m = (if 0 \<le> x then x - m * of_int \<lfloor>x / m\<rfloor> else x + m * of_int \<lfloor>- x / m\<rfloor>)"

text \<open>The decimal digits of a natural number, most significant first.\<close>

function digitsOf :: "nat \<Rightarrow> jsstring" where
  "digitsOf n = (if n < 10 then [48 + n] else digitsOf (n div 10) @ [48 + n mod 10])"
  by pat_completeness auto
termination
  by (relation "measure id") auto

declare digitsOf.simps [simp del]

text \<open>
  \<open>String(n)\<close> for an integral number: plain decimal digits below \<open>10^21\<close>, and from
  there on the exponent notation \<open>d.ddde+x\<close> (one digit, the further digits without
  their trailing zeros, the exponent). The model prints the exact digits of the
  integer in the exponent notation; a double prints at most seventeen of them.
\<close>

definition natToString :: "nat \<Rightarrow> jsstring" where
  "natToString n =
     (if n < 10 ^ 21 then digitsOf n
      else
        let ds = digitsOf n;
            frac = rev (dropWhile (\<lambda>d. d = 48) (rev (tl ds)))
        in hd ds # (if frac = [] then [] else 46 # frac) @ [101, 43] @ digitsOf (length ds - 1))"

definition intToString :: "int \<Rightarrow> jsstring" where
  "intToString i = (if i < 0 then 45 # natToString (nat (- i)) else natToString (nat i))"

text \<open>\<open>s.padStart(n, '0')\<close>\<close>

definition padStart :: "nat \<Rightarrow> jsstring \<Rightarrow> jsstring" where
  "padStart n s = replicate (n - length s) 48 @ s"

text \<open>
  \<open>parseInt(s, 10)\<close>: leading white space and one sign are skipped, then the longest run
  of decimal digits is read; \<open>NaN\<close> when there is no digit.
\<close>

definition isDigit :: "nat \<Rightarrow> bool" where
  "isDigit c \<longleftrightarrow> 48 \<le> c \<and> c \<le> 57"

definition digitsValue :: "jsstring \<Rightarrow> nat" where
  "digitsValue ds = foldl (\<lambda>acc d. 10 * acc + (d - 48)) 0 ds"

definition parseInt :: "jsstring \<Rightarrow> number" where
  "parseInt s =
     (let t = dropWhile isSpace s;
          neg = (t \<noteq> [] \<and> hd t = 45);
          u = (if t \<noteq> [] \<and> (hd t = 45 \<or> hd t = 43) then tl t else t);
          ds = takeWhile isDigit u
      in if ds = [] then NaN
         else Num (if neg then - of_nat (digitsValue ds) else of_nat (digitsValue ds)))"

text \<open>\<open>s.split(sep)\<close> for a separator of one code unit.\<close>

fun splitOn :: "nat \<Rightarrow> jsstring \<Rightarrow> jsstring list" where
  "splitOn sep [] = [[]]"
| "splitOn sep (c # cs) =
     (if c = sep then [] # splitOn sep cs
      else (case splitOn sep cs of
              l # ls \<Rightarrow> (c # l) # ls
            | [] \<Rightarrow> [[c]]))"

section \<open>Timestamp codec: \<open>formatTimestamp\<close> and \<open>parseTimestamp\<close>\<close>

definition formatTimestamp :: "number \<Rightarrow> jsstring" where
  "formatTimestamp seconds =
     (case seconds of
        NaN \<Rightarrow> str ''NaN:NaN:NaN,NaN''
      | Num s \<Rightarrow>
          let hours = \<lfloor>s / 3600\<rfloor>;
              minutes = \<lfloor>jsRem s 3600 / 60\<rfloor>;
              secs = \<lfloor>jsRem s 60\<rfloor>;
              millis = \<lfloor>jsRem s 1 * 1000\<rfloor>
          in padStart 2 (intToString hours) @ [58] @ padStart 2 (intToString minutes) @ [58]
             @ padStart 2 (intToString secs) @ [44] @ padStart 3 (intToString millis))"

text \<open>
  The errors of the node: its own \<open>Error('Script is empty')\<close>, and the two that the
  built-in operations it calls can throw.
\<close>

datatype error = ScriptEmpty | TypeError | SyntaxError

text \<open>
  \<open>parseTimestamp\<close>: the destructuring \<open>[hh, mm, rest]\<close> leaves a missing element
  \<open>undefined\<close>; \<open>rest.split\<close> then throws a \<open>TypeError\<close>, and \<open>parseInt(undefined)\<close> is
  \<open>NaN\<close>.
\<close>

definition parseTimestamp :: "jsstring \<Rightarrow> error + number" where
  "parseTimestamp timestamp =
     (case splitOn 58 timestamp of
        hh # mm # rest # _ \<Rightarrow>
          (let fields = splitOn 44 rest;
               ss = hd fields;
               ms = (case tl fields of [] \<Rightarrow> NaN | m # _ \<Rightarrow> parseInt m)
           in Inr (numAdd (numAdd (numAdd (numTimes (parseInt hh) 3600) (numTimes (parseInt mm) 60))
                             (parseInt ss))
                     (numTimes ms (1 / 1000))))
      | _ \<Rightarrow> Inl TypeError)"

section \<open>Timeline assigner: \<open>assignTimestamps\<close>\<close>

text \<open>
  \<open>Math.max(minDuration, Math.min(maxDuration, charCount / readingSpeed))\<close>. A zero
  reading speed gives \<open>Infinity\<close> for a positive count, which \<open>Math.min\<close> replaces by
  \<open>maxDuration\<close>, and \<open>NaN\<close> for a count of zero.
\<close>

definition cueDuration :: "nat \<Rightarrow> rat \<Rightarrow> rat \<Rightarrow> rat \<Rightarrow> number" where
  "cueDuration charCount rs minD maxD =
     (if rs = 0 then (if charCount = 0 then NaN else Num (max minD maxD))
      else Num (max minD (min maxD (of_nat charCount / rs))))"

text \<open>\<open>segment.text.replace(/\n/g, '').length\<close>\<close>

definition charCount :: "SubtitleSegment \<Rightarrow> nat" where
  "charCount segment = length (filter (\<lambda>c. c \<noteq> LF) (text segment))"

text \<open>The \<open>map\<close> of \<open>assignTimestamps\<close>, with the variable \<open>currentTime\<close> of its closure.\<close>

fun assignLoop :: "rat \<Rightarrow> rat \<Rightarrow> rat \<Rightarrow> number \<Rightarrow> SubtitleSegment list \<Rightarrow> SubtitleSegment list" where
  "assignLoop rs minD maxD currentTime [] = []"
| "assignLoop rs minD maxD currentTime (segment # segments) =
     (let duration = cueDuration (charCount segment) rs minD maxD;
          start = formatTimestamp currentTime;
          currentTime' = numAdd currentTime duration;
          stop = formatTimestamp currentTime'
      in segment\<lparr>startTime := start, endTime := stop\<rparr>
         # assignLoop rs minD maxD currentTime' segments)"

definition assignTimestamps :: "SubtitleSegment list \<Rightarrow> SubtitleGenerationNodeConfig \<Rightarrow> SubtitleSegment list" where
  "assignTimestamps segments config =
     assignLoop (orDefault (readingSpeed config) (29 / 5)) (orDefault (minDuration config) (9 / 5))
       (orDefault (maxDuration config) 3) (Num 0) segments"

definition calculateTotalDuration :: "SubtitleSegment list \<Rightarrow> error + number" where
  "calculateTotalDuration segments =
     (if segments = [] then Inr (Num 0) else parseTimestamp (endTime (last segments)))"

section \<open>Format renderers\<close>

text \<open>\<open>generateSRT\<close>\<close>

definition srtBlock :: "SubtitleSegment \<Rightarrow> jsstring" where
  "srtBlock segment =
     natToString (index segment) @ [LF] @ startTime segment @ str '' --> '' @ endTime segment
     @ [LF] @ text segment @ [LF]"

definition generateSRT :: "SubtitleSegment list \<Rightarrow> jsstring" where
  "generateSRT segments = join [LF] (map srtBlock segments)"

text \<open>
  \<open>generateVTT\<close>. \<open>s.replace(',', '.')\<close> has a string for its pattern and replaces the
  first comma only; \<open>text.replace(/\n/g, ' ')\<close> replaces every line feed.
\<close>

fun replaceFirst :: "nat \<Rightarrow> nat \<Rightarrow> jsstring \<Rightarrow> jsstring" where
  "replaceFirst a b [] = []"
| "replaceFirst a b (c # cs) = (if c = a then b # cs else c # replaceFirst a b cs)"

definition vttText :: "SubtitleSegment \<Rightarrow> jsstring" where
  "vttText segment = map (\<lambda>c. if c = LF then SPACE else c) (text segment)"

definition vttLines :: "SubtitleSegment \<Rightarrow> jsstring list" where
  "vttLines segment =
     [replaceFirst 44 46 (startTime segment) @ str '' --> '' @ replaceFirst 44 46 (endTime segment),
      vttText segment, []]"

definition generateVTT :: "SubtitleSegment list \<Rightarrow> jsstring" where
  "generateVTT segments = join [LF] ([str ''WEBVTT'', []] @ concat (map vttLines segments))"

text \<open>\<open>getAssStyle\<close>; \<open>secondaryColor\<close> is read from \<open>style.primaryColor\<close>, as in the source.\<close>

record AssStyleConfig =
  fontName :: jsstring
  fontSize :: int
  primaryColor :: jsstring
  secondaryColor :: jsstring
  outlineColor :: jsstring
  backColor :: jsstring
  outline :: int
  shadow :: int
  bold :: int
  alignment :: int
  marginV :: rat
  marginL :: rat
  marginR :: rat
  fadeIn :: rat
  fadeOut :: rat

definition getAssStyle :: "SubtitleGenerationNodeConfig \<Rightarrow> AssStyleConfig" where
  "getAssStyle config =
     (let st = orDefault (style config) emptyStyle
      in \<lparr>fontName = orDefault (StyleConfig.fontName st) (str ''Noto Sans JP Bold''),
          fontSize = orDefault (StyleConfig.fontSize st) 68,
          primaryColor = orDefault (StyleConfig.primaryColor st) (str ''&H00FFFFFF&''),
          secondaryColor = orDefault (StyleConfig.primaryColor st) (str ''&H00FFFFFF&''),
          outlineColor = orDefault (StyleConfig.outlineColor st) (str ''&H00000000&''),
          backColor = orDefault (StyleConfig.backColor st) (str ''&H60000000&''),
          outline = orDefault (StyleConfig.outline st) 4,
          shadow = orDefault (StyleConfig.shadow st) 1,
          bold = orDefault (StyleConfig.bold st) 1,
          alignment = orDefault (StyleConfig.alignment st) 5,
          marginV = orDefault (StyleConfig.marginV st) 320,
          marginL = orDefault (StyleConfig.marginL st) 60,
          marginR = orDefault (StyleConfig.marginR st) 60,
          fadeIn = orDefault (StyleConfig.fadeIn st) 120,
          fadeOut = orDefault (StyleConfig.fadeOut st) 150\<rparr>)"

text \<open>\<open>Math.max(0, Math.round(x))\<close>; \<open>Math.round\<close> rounds a half upwards.\<close>

definition roundNonNeg :: "rat \<Rightarrow> int" where
  "roundNonNeg x = max 0 \<lfloor>x + 1 / 2\<rfloor>"

text \<open>
  A compiled global regular expression is modelled by what \<open>replace\<close> needs of it: it
  cuts a string into its successive matches, each with the unmatched text before it,
  and the unmatched rest. The constructor \<open>new RegExp(pattern, 'g')\<close> is a parameter
  \<open>RegExp\<close> of the functions below; it yields \<open>None\<close> where the constructor throws a
  \<open>SyntaxError\<close>.
\<close>

type_synonym regex = "jsstring \<Rightarrow> (jsstring \<times> jsstring) list \<times> jsstring"

text \<open>\<open>s.replace(re, f)\<close> with a function \<open>f\<close> of the match\<close>

definition replaceMatches :: "regex \<Rightarrow> (jsstring \<Rightarrow> jsstring) \<Rightarrow> jsstring \<Rightarrow> jsstring" where
  "replaceMatches re f s =
     (case re s of (ms, rest) \<Rightarrow> concat (map (\<lambda>(gap, m). gap @ f m) ms) @ rest)"

text \<open>
  The default highlight pattern \<open>/([0-9\<dots>]+[0-9\<dots>.,\<dots>]*|[A-Z]{2,}[A-Za-z0-9]*)/g\<close>: a
  digit (ASCII or full-width U+FF10..U+FF19) followed by the longest run of digits,
  \<open>.\<close>, \<open>,\<close>, U+FF05, U+4E07 and U+5104; or two capitals followed by the longest run of
  ASCII letters and digits.
\<close>

definition isNumHead :: "nat \<Rightarrow> bool" where
  "isNumHead c \<longleftrightarrow> isDigit c \<or> (65296 \<le> c \<and> c \<le> 65305)"

definition isNumTail :: "nat \<Rightarrow> bool" where
  "isNumTail c \<longleftrightarrow> isNumHead c \<or> c = 46 \<or> c = 44 \<or> c = 65285 \<or> c = 19975 \<or> c = 20740"

definition isUpper :: "nat \<Rightarrow> bool" where
  "isUpper c \<longleftrightarrow> 65 \<le> c \<and> c \<le> 90"

definition isAlnum :: "nat \<Rightarrow> bool" where
  "isAlnum c \<longleftrightarrow> isUpper c \<or> (97 \<le> c \<and> c \<le> 122) \<or> isDigit c"

function scanHighlights :: "jsstring \<Rightarrow> jsstring \<Rightarrow> (jsstring \<times> jsstring) list \<times> jsstring" where
  "scanHighlights gap [] = ([], gap)"
| "scanHighlights gap (c # cs) =
     (if isNumHead c then
        (case scanHighlights [] (dropWhile isNumTail cs) of
           (ms, rest) \<Rightarrow> ((gap, c # takeWhile isNumTail cs) # ms, rest))
      else if isUpper c \<and> cs \<noteq> [] \<and> isUpper (hd cs) then
        (case scanHighlights [] (dropWhile isAlnum cs) of
           (ms, rest) \<Rightarrow> ((gap, c # takeWhile isAlnum cs) # ms, rest))
      else scanHighlights (gap @ [c]) cs)"
  by pat_completeness auto
termination
  by (relation "measure (\<lambda>(gap, s). length s)")
     (auto simp: length_dropWhile_le less_Suc_eq_le)

definition defaultHighlightPattern :: regex where
  "defaultHighlightPattern s = scanHighlights [] s"

text \<open>\<open>s.replace(/pat/g, rep)\<close> for a pattern and a replacement that are plain strings.\<close>

function replaceAll :: "jsstring \<Rightarrow> jsstring \<Rightarrow> jsstring \<Rightarrow> jsstring" where
  "replaceAll pat rep [] = []"
| "replaceAll pat rep (c # cs) =
     (if pat \<noteq> [] \<and> take (length pat) (c # cs) = pat
      then rep @ replaceAll pat rep (drop (length pat) (c # cs))
      else c # replaceAll pat rep cs)"
  by pat_completeness auto
termination
  by (relation "measure (\<lambda>(pat, rep, s). length s)") auto

text \<open>
  \<open>prepareAssText\<close>. The code units: \<open>\\<close> is 92, \<open>{\<close> is 123, \<open>}\<close> is 125, \<open>N\<close> is 78.
  An empty pattern string is falsy and selects the default pattern. The pattern is
  compiled whether highlighting is enabled or not.
\<close>

definition escapeAss :: "jsstring \<Rightarrow> jsstring" where
  "escapeAss s =
     replaceAll [125] [92, 125] (replaceAll [123] [92, 123] (replaceAll [92] [92, 92] s))"

definition highlightMarker :: "jsstring \<Rightarrow> jsstring" where
  "highlightMarker colour = [92, 123, 92] @ str ''1c'' @ colour @ [125]"

definition prepareAssText :: "(jsstring \<Rightarrow> regex option) \<Rightarrow> jsstring \<Rightarrow> SubtitleGenerationNodeConfig
    \<Rightarrow> AssStyleConfig \<Rightarrow> error + jsstring" where
  "prepareAssText RegExp txt config st =
     (let baseColor = primaryColor st;
          hl = highlight config;
          highlightEnabled = (case hl of None \<Rightarrow> True | Some h \<Rightarrow> orDefault (enabled h) True);
          customPattern = (case hl of None \<Rightarrow> None | Some h \<Rightarrow> pattern h);
          highlightPattern =
            (case customPattern of
               None \<Rightarrow> Some defaultHighlightPattern
             | Some p \<Rightarrow> if p = [] then Some defaultHighlightPattern else RegExp p);
          highlightColor =
            (case hl of None \<Rightarrow> str ''&H0000E0B8&''
             | Some h \<Rightarrow> orDefault (color h) (str ''&H0000E0B8&''))
      in case highlightPattern of
           None \<Rightarrow> Inl SyntaxError
         | Some re \<Rightarrow>
             let processed = escapeAss (replaceAll [LF] [92, 78] (removeCR txt));
                 processed' =
                   (if highlightEnabled then
                      replaceAll [92, 125] [125]
                        (replaceAll ([92, 92, 123, 92] @ str ''1c'') ([123, 92] @ str ''1c'')
                           (replaceMatches re
                              (\<lambda>m. highlightMarker highlightColor @ m @ highlightMarker baseColor)
                              processed))
                    else processed)
             in Inr ([123, 92] @ str ''fad('' @ intToString (roundNonNeg (fadeIn st)) @ str '',''
                     @ intToString (roundNonNeg (fadeOut st)) @ str '')'' @ [125] @ processed'))"

text \<open>\<open>formatAsstime\<close>: from the plain timestamp to \<open>H:MM:SS.CC\<close>.\<close>

definition formatAsstime :: "jsstring \<Rightarrow> error + jsstring" where
  "formatAsstime timestamp =
     (case parseTimestamp timestamp of
        Inl e \<Rightarrow> Inl e
      | Inr NaN \<Rightarrow> Inr (str ''NaN:NaN:NaN.NaN'')
      | Inr (Num totalSeconds) \<Rightarrow>
          let hours = \<lfloor>totalSeconds / 3600\<rfloor>;
              minutes = \<lfloor>jsRem totalSeconds 3600 / 60\<rfloor>;
              seconds = \<lfloor>jsRem totalSeconds 60\<rfloor>;
              centiseconds = \<lfloor>jsRem totalSeconds 1 * 100 + 1 / 2\<rfloor>
          in Inr (intToString hours @ [58] @ padStart 2 (intToString minutes) @ [58]
                  @ padStart 2 (intToString seconds) @ [46] @ padStart 2 (intToString centiseconds)))"

text \<open>\<open>generateASS\<close>: the header, then one \<open>Dialogue\<close> line for each cue, in order.\<close>

definition assHeader :: "AssStyleConfig \<Rightarrow> jsstring list" where
  "assHeader st =
     [str ''[Script Info]'',
      str ''ScriptType: v4.00+'',
      str ''PlayResX: 1080'',
      str ''PlayResY: 1920'',
      str ''WrapStyle: 2'',
      str ''ScaledBorderAndShadow: yes'',
      [],
      str ''[V4+ Styles]'',
      str ''Format: Name,Fontname,Fontsize,PrimaryColour,SecondaryColour,OutlineColour,BackColour,Bold,Italic,Underline,StrikeOut,ScaleX,ScaleY,Spacing,Angle,BorderStyle,Outline,Shadow,Alignment,MarginL,MarginR,MarginV,Encoding'',
      str ''Style: Default,'' @ fontName st @ [44] @ intToString (fontSize st) @ [44]
        @ primaryColor st @ [44] @ secondaryColor st @ [44] @ outlineColor st @ [44]
        @ backColor st @ [44] @ intToString (bold st) @ str '',0,0,0,100,100,0,0,3,''
        @ intToString (outline st) @ [44] @ intToString (shadow st) @ [44]
        @ intToString (alignment st) @ [44] @ intToString (roundNonNeg (marginL st)) @ [44]
        @ intToString (roundNonNeg (marginR st)) @ [44] @ intToString (roundNonNeg (marginV st))
        @ str '',1'',
      [],
      str ''[Events]'',
      str ''Format: Layer, Start, End, Style, Name, MarginL, MarginR, MarginV, Effect, Text'']"

definition dialogue :: "(jsstring \<Rightarrow> regex option) \<Rightarrow> SubtitleGenerationNodeConfig \<Rightarrow> AssStyleConfig
    \<Rightarrow> SubtitleSegment \<Rightarrow> error + jsstring" where
  "dialogue RegExp config st segment =
     (case formatAsstime (startTime segment) of
        Inl e \<Rightarrow> Inl e
      | Inr start \<Rightarrow>
          (case formatAsstime (endTime segment) of
             Inl e \<Rightarrow> Inl e
           | Inr stop \<Rightarrow>
               (case prepareAssText RegExp (text segment) config st of
                  Inl e \<Rightarrow> Inl e
                | Inr t \<Rightarrow>
                    Inr (str ''Dialogue: 0,'' @ start @ [44] @ stop @ str '',Default,,''
                         @ intToString (roundNonNeg (marginL st)) @ [44]
                         @ intToString (roundNonNeg (marginR st)) @ [44]
                         @ intToString (roundNonNeg (marginV st)) @ str '',,'' @ t))))"

text \<open>\<open>xs.map(f)\<close> for an \<open>f\<close> that can throw: the first error ends the map.\<close>

fun mapResult :: "('a \<Rightarrow> error + 'b) \<Rightarrow> 'a list \<Rightarrow> error + 'b list" where
  "mapResult f [] = Inr []"
| "mapResult f (x # xs) =
     (case f x of
        Inl e \<Rightarrow> Inl e
      | Inr y \<Rightarrow> (case mapResult f xs of Inl e \<Rightarrow> Inl e | Inr ys \<Rightarrow> Inr (y # ys)))"

definition generateASS :: "(jsstring \<Rightarrow> regex option) \<Rightarrow> SubtitleSegment list
    \<Rightarrow> SubtitleGenerationNodeConfig \<Rightarrow> error + jsstring" where
  "generateASS RegExp segments config =
     (let st = getAssStyle config
      in case mapResult (dialogue RegExp config st) segments of
           Inl e \<Rightarrow> Inl e
         | Inr dialogues \<Rightarrow> Inr (join [LF] (assHeader st @ dialogues)))"

section \<open>The node: \<open>executeInternal\<close>\<close>

text \<open>
  \<open>executeInternal\<close> on the text read from the script file. Reading and writing files,
  logging and the date of generation are left out. Every error thrown inside is caught
  by the node and returned as a failure output: \<open>Inl\<close> is that failure.
\<close>

record SubtitleData =
  dataFormat :: SubtitleFormat
  segments :: "SubtitleSegment list"
  totalDuration :: number
  outputContent :: jsstring

definition executeInternal :: "(jsstring \<Rightarrow> regex option) \<Rightarrow> jsstring \<Rightarrow> SubtitleGenerationNodeConfig
    \<Rightarrow> error + SubtitleData" where
  "executeInternal RegExp rawScript config =
     (if rawScript = [] \<or> length (trim rawScript) = 0 then Inl ScriptEmpty
      else
        let fmt = orDefault (format config) srt;
            segs = assignTimestamps (splitIntoSegments rawScript config) config;
            rendered =
              (case fmt of
                 ass \<Rightarrow> generateASS RegExp segs config
               | vtt \<Rightarrow> Inr (generateVTT segs)
               | srt \<Rightarrow> Inr (generateSRT segs))
        in case rendered of
             Inl e \<Rightarrow> Inl e
           | Inr content \<Rightarrow>
               (case calculateTotalDuration segs of
                  Inl e \<Rightarrow> Inl e
                | Inr tot \<Rightarrow>
                    Inr \<lparr>dataFormat = fmt, segments = segs, totalDuration = tot,
                         outputContent = content\<rparr>))"

section \<open>Auxiliary notions for the properties\<close>

text \<open>Stripping white space at the right end only; \<open>trim\<close> strips both ends.\<close>

definition rtrim :: "jsstring \<Rightarrow> jsstring" where
  "rtrim s = rev (dropWhile isSpace (rev s))"

text \<open>
  The fragments that the loop of \<open>splitIntoSegments\<close> works on: each sentence trimmed,
  the empty ones skipped.
\<close>

definition fragments :: "jsstring \<Rightarrow> jsstring list" where
  "fragments script = filter (\<lambda>f. f \<noteq> []) (map trim (splitBySentences script))"

text \<open>
  The cue packer in the words of the specification, kept apart from the code above to
  be compared with it: fragments are accumulated greedily in a buffer \<open>g\<close>; when
  appending the next fragment would make the buffer exceed the budget, the buffer is
  closed and a new one starts with that fragment; the last buffer is closed if it is not
  empty. A buffer is kept as the list of its fragments.
\<close>

fun greedyPack_spec :: "int \<Rightarrow> jsstring list \<Rightarrow> jsstring list \<Rightarrow> jsstring list list" where
  "greedyPack_spec budget g [] = (if g = [] then [] else [g])"
| "greedyPack_spec budget g (f # fs) =
     (if g \<noteq> [] \<and> int (length (concat g @ f)) > budget
      then g # greedyPack_spec budget [f] fs
      else greedyPack_spec budget (g @ [f]) fs)"

text \<open>Cues numbered from \<open>i\<close> on, with empty times.\<close>

fun numbered :: "nat \<Rightarrow> jsstring list \<Rightarrow> SubtitleSegment list" where
  "numbered i [] = []"
| "numbered i (t # ts) = newSegment i t # numbered (Suc i) ts"

text \<open>
  A buffer, kept as the list \<open>g\<close> of its fragments, is fitted to the budget when every
  fragment it holds after the first was appended to a buffer that, with it, stayed
  within the budget.
\<close>

definition fitted :: "int \<Rightarrow> jsstring list \<Rightarrow> bool" where
  "fitted budget g \<longleftrightarrow>
     (\<forall>p f r. g = p @ f # r \<and> p \<noteq> [] \<longrightarrow> int (length (concat p @ f)) \<le> budget)"

text \<open>The configuration \<open>{}\<close>: every option takes its default.\<close>

definition defaultConfig :: SubtitleGenerationNodeConfig where
  "defaultConfig = \<lparr>format = None, maxCharsPerLine = None, maxLines = None, readingSpeed = None,
     minDuration = None, maxDuration = None, highlight = None, style = None\<rparr>"



text \<open>The cue list of the node: the script packed into cues, then timed.\<close>

definition cueList :: "jsstring \<Rightarrow> SubtitleGenerationNodeConfig \<Rightarrow> SubtitleSegment list" where
  "cueList script config = assignTimestamps (splitIntoSegments script config) config"



text \<open>
  The configuration names a highlight pattern that is not the empty string and that
  the \<open>RegExp\<close> constructor rejects.
\<close>

definition badPattern :: "(jsstring \<Rightarrow> regex option) \<Rightarrow> SubtitleGenerationNodeConfig \<Rightarrow> bool" where
  "badPattern RegExp config \<longleftrightarrow>
     (case highlight config of
        None \<Rightarrow> False
      | Some h \<Rightarrow> (case pattern h of None \<Rightarrow> False | Some p \<Rightarrow> p \<noteq> [] \<and> RegExp p = None))"

section \<open>White space\<close>

lemma dropWhile_all: "\<forall>x\<in>set xs. P x \<Longrightarrow> dropWhile P xs = []"
  by simp

lemma trim_Nil_iff: "trim s = [] \<longleftrightarrow> list_all isSpace s"
proof -
  have "(\<forall>x\<in>set (dropWhile isSpace s). isSpace x) \<longleftrightarrow> (\<forall>x\<in>set s. isSpace x)"
    by (induction s) auto
  then show ?thesis by (simp add: trim_def list_all_iff)
qed

lemma trim_rtrim: "trim s = rtrim (dropWhile isSpace s)"
  by (simp add: trim_def rtrim_def)

lemma rtrim_Cons: "rtrim (c # X) = (if rtrim X = [] \<and> isSpace c then [] else c # rtrim X)"
  by (auto simp: rtrim_def dropWhile_append)

lemma rtrim_dropWhile: "rtrim (dropWhile isSpace X) = dropWhile isSpace (rtrim X)"
proof (induction X)
  case Nil
  then show ?case by (simp add: rtrim_def)
next
  case (Cons c X)
  show ?case
  proof (cases "isSpace c")
    case True
    with Cons show ?thesis by (simp add: rtrim_Cons)
  next
    case False
    then show ?thesis by (simp add: rtrim_Cons)
  qed
qed

lemma isSpace_SPACE: "isSpace SPACE"
  by (simp add: isSpace_def SPACE_def)

lemma collapseSpaces_spaces:
  "list_all isSpace w \<Longrightarrow> collapseSpaces w = (if w = [] then [] else [SPACE])"
  by (cases w) (auto simp: list_all_iff dropWhile_all)

lemma rtrim_collapse_append:
  "list_all isSpace w \<Longrightarrow> rtrim (collapseSpaces (s @ w)) = rtrim (collapseSpaces s)"
proof (induction s rule: collapseSpaces.induct)
  case 1
  then show ?case
    by (simp add: collapseSpaces_spaces rtrim_Cons isSpace_SPACE) (simp add: rtrim_def)
next
  case (2 c cs)
  show ?case
  proof (cases "isSpace c")
    case True
    show ?thesis
    proof (cases "\<forall>x\<in>set cs. isSpace x")
      case all: True
      with True 2(3) show ?thesis
        by (simp add: dropWhile_append list_all_iff dropWhile_all)
    next
      case False
      then obtain x where "x \<in> set cs" "\<not> isSpace x" by blast
      then have "dropWhile isSpace (cs @ w) = dropWhile isSpace cs @ w" by simp
      with True 2(1) [OF True 2(3)] show ?thesis by (simp add: rtrim_Cons)
    qed
  next
    case False
    with 2(2) [OF False 2(3)] show ?thesis by (simp add: rtrim_Cons)
  qed
qed

lemma trim_collapse_append:
  "list_all isSpace w \<Longrightarrow> trim (collapseSpaces (s @ w)) = trim (collapseSpaces s)"
  by (simp add: trim_rtrim rtrim_dropWhile rtrim_collapse_append)

section \<open>The sentence segmenter conserves the text\<close>

lemma concat_splitParts: "concat (splitParts pre s) = pre @ s"
  by (induction pre s rule: splitParts.induct) simp_all

lemma sentenceLoop_conserves:
  "\<exists>w. list_all isSpace w \<and> concat (sentenceLoop ss b ps) @ w = concat ss @ b @ concat ps"
proof (induction ps arbitrary: ss b)
  case Nil
  show ?case
  proof (cases "trim b = []")
    case True
    then have "list_all isSpace b" by (simp add: trim_Nil_iff)
    with True show ?thesis by auto
  next
    case False
    then show ?thesis by (intro exI [of _ "[]"]) simp
  qed
next
  case (Cons p ps)
  show ?case
    using Cons.IH [of ss b] Cons.IH [of "ss @ [b @ p]" "[]"] Cons.IH [of ss "b @ p"]
    by (simp split: if_splits)
qed

lemma splitBySentences_remainder:
  "\<exists>w. list_all isSpace w \<and> concat (splitBySentences t) @ w = removeCR t"
  using sentenceLoop_conserves [of "[]" "[]" "splitParts [] (removeCR t)"]
  by (simp add: splitBySentences_def concat_splitParts)

text \<open>
  Claim C9, as amended. Concatenating the fragments of \<open>splitBySentences\<close>, in order,
  gives the input text with its carriage returns deleted, short of a remainder of white
  space at the end of the text that the segmenter drops. Hence the concatenation and
  the text without carriage returns are equal once runs of white space are collapsed
  and the ends trimmed.
\<close>

theorem splitBySentences_conserves:
  "(\<exists>w. list_all isSpace w \<and> concat (splitBySentences t) @ w = removeCR t)
   \<and> trim (collapseSpaces (concat (splitBySentences t))) = trim (collapseSpaces (removeCR t))"
proof -
  obtain w where w: "list_all isSpace w" "concat (splitBySentences t) @ w = removeCR t"
    using splitBySentences_remainder by blast
  from w(1) have "trim (collapseSpaces (concat (splitBySentences t) @ w))
      = trim (collapseSpaces (concat (splitBySentences t)))"
    by (rule trim_collapse_append)
  with w show ?thesis by auto
qed

text \<open>
  Claim C9 as stated fails on a carriage return between two letters: the segmenter
  deletes it, so the fragments of \<open>a\rb\<close> concatenate to \<open>ab\<close>, while the input with its
  white space collapsed is \<open>a b\<close>.
\<close>

theorem splitBySentences_deletes_carriage_return:
  "concat (splitBySentences [97, 13, 98]) = [97, 98]
   \<and> collapseSpaces [97, 13, 98] = [97, 32, 98]
   \<and> collapseSpaces (concat (splitBySentences [97, 13, 98])) \<noteq> collapseSpaces [97, 13, 98]"
  by (simp add: splitBySentences_def removeCR_def CR_def LF_def isTerminator_def
      isTerminatorRun_def trim_def isSpace_def SPACE_def)


section \<open>Evaluation of the definitions on concrete inputs\<close>

lemmas string_eval = str_def trim_def isSpace_def LF_def CR_def SPACE_def removeCR_def
  isTerminator_def isTerminatorRun_def splitBySentences_def orDefault_def

lemmas wrap_eval = formatSegmentText_def isHighSurrogate_def isLowSurrogate_def isBreakPoint_def
  isSeparatorChar_def sliceTo_def Let_def

lemma floor_rat_numeral_div: "\<lfloor>numeral a / numeral b :: rat\<rfloor> = numeral a div numeral b"
  by (metis floor_divide_of_int_eq of_int_numeral)

lemma floor_rat_one_div: "\<lfloor>1 / numeral b :: rat\<rfloor> = 1 div numeral b"
  by (metis floor_divide_of_int_eq of_int_numeral of_int_1)

lemma floor_rat_neg_numeral_div:
  "\<lfloor>- (numeral a / numeral b) :: rat\<rfloor> = - numeral a div numeral b"
  by (metis floor_divide_of_int_eq of_int_numeral of_int_minus minus_divide_left)

lemmas floor_eval = jsRem_def roundNonNeg_def floor_rat_numeral_div floor_rat_one_div
  floor_rat_neg_numeral_div

lemma replicate_2: "replicate 2 x = [x, x]"
  by (simp add: numeral_2_eq_2)

lemma replicate_3: "replicate 3 x = [x, x, x]"
  by (simp add: numeral_3_eq_3)

lemmas digits_eval = digitsOf.simps natToString_def intToString_def padStart_def
  replicate_2 replicate_3

lemmas parse_eval = parseTimestamp_def parseInt_def isDigit_def digitsValue_def isSpace_def

section \<open>The cue packer is the greedy packer\<close>

lemma trim_not_blank: "trim s \<noteq> [] \<Longrightarrow> \<not> list_all isSpace (trim s)"
proof
  assume ne: "trim s \<noteq> []" and all: "list_all isSpace (trim s)"
  let ?d = "dropWhile isSpace (rev (dropWhile isSpace s))"
  from ne have "?d \<noteq> []" by (simp add: trim_def)
  then have "\<not> isSpace (hd ?d)" by (rule hd_dropWhile)
  moreover from \<open>?d \<noteq> []\<close> have "hd ?d \<in> set (trim s)" by (simp add: trim_def)
  ultimately show False using all by (simp add: list_all_iff)
qed

lemma concat_not_blank:
  "\<forall>f\<in>set g. \<not> list_all isSpace f \<Longrightarrow> trim (concat g) \<noteq> [] \<longleftrightarrow> g \<noteq> []"
  by (cases g) (auto simp: trim_Nil_iff list_all_iff)

lemma concat_nonempty:
  "\<forall>f\<in>set g. \<not> list_all isSpace f \<Longrightarrow> concat g \<noteq> [] \<longleftrightarrow> g \<noteq> []"
  by (cases g) (auto simp: list_all_iff)

lemma numbered_append: "numbered i (xs @ ys) = numbered i xs @ numbered (i + length xs) ys"
  by (induction xs arbitrary: i) simp_all

lemma packLoop_greedy:
  assumes "\<forall>f\<in>set g. \<not> list_all isSpace f"
  shows "(case packLoop mc ml segs (concat g) idx ss of
            (segs', cur, i) \<Rightarrow>
              if trim cur \<noteq> [] then segs' @ [newSegment i (formatSegmentText cur mc ml)] else segs')
         = segs @ numbered idx (map (\<lambda>g. formatSegmentText (concat g) mc ml)
                 (greedyPack_spec (mc * ml) g (filter (\<lambda>f. f \<noteq> []) (map trim ss))))"
  using assms
proof (induction ss arbitrary: segs g idx)
  case Nil
  then show ?case by (simp add: concat_not_blank)
next
  case (Cons s ss)
  let ?fs = "filter (\<lambda>f. f \<noteq> []) (map trim ss)"
  have ne: "concat g \<noteq> [] \<longleftrightarrow> g \<noteq> []"
    using Cons.prems by (rule concat_nonempty)
  show ?case
  proof (cases "trim s = []")
    case True
    with Cons show ?thesis by simp
  next
    case False
    then have nb: "\<not> list_all isSpace (trim s)" by (rule trim_not_blank)
    show ?thesis
    proof (cases "g \<noteq> [] \<and> int (length (concat g @ trim s)) > mc * ml")
      case close: True
      have step: "packLoop mc ml segs (concat g) idx (s # ss)
          = packLoop mc ml (segs @ [newSegment idx (formatSegmentText (concat g) mc ml)])
              (concat [trim s]) (idx + 1) ss"
        using False close ne by (simp add: Let_def)
      have spec: "greedyPack_spec (mc * ml) g (filter (\<lambda>f. f \<noteq> []) (map trim (s # ss)))
          = g # greedyPack_spec (mc * ml) [trim s] ?fs"
        using False close by simp
      have "\<forall>f\<in>set [trim s]. \<not> list_all isSpace f" using nb by simp
      from Cons.IH [OF this] show ?thesis
        unfolding step spec by simp
    next
      case keep: False
      have step: "packLoop mc ml segs (concat g) idx (s # ss)
          = packLoop mc ml segs (concat (g @ [trim s])) idx ss"
        using False keep ne by (auto simp add: Let_def)
      have spec: "greedyPack_spec (mc * ml) g (filter (\<lambda>f. f \<noteq> []) (map trim (s # ss)))
          = greedyPack_spec (mc * ml) (g @ [trim s]) ?fs"
        using False keep by auto
      have "\<forall>f\<in>set (g @ [trim s]). \<not> list_all isSpace f" using nb Cons.prems by simp
      from Cons.IH [OF this] show ?thesis
        unfolding step spec by simp
    qed
  qed
qed

lemma splitIntoSegments_numbered:
  "splitIntoSegments script config =
     numbered 1 (map (\<lambda>g. formatSegmentText (concat g) (orDefault (maxCharsPerLine config) 42)
                       (orDefault (maxLines config) 2))
       (greedyPack_spec (orDefault (maxCharsPerLine config) 42 * orDefault (maxLines config) 2) []
          (fragments script)))"
  using packLoop_greedy [of "[]" "orDefault (maxCharsPerLine config) 42" "orDefault (maxLines config) 2" "[]" 1 "splitBySentences script"]
  by (simp add: splitIntoSegments_def fragments_def Let_def split: prod.splits)

lemma text_numbered: "map text (numbered i ts) = ts"
  by (induction ts arbitrary: i) (simp_all add: newSegment_def)


lemma concat_greedyPack: "concat (greedyPack_spec B g fs) = g @ fs"
  by (induction fs arbitrary: g) simp_all

lemma greedyPack_no_empty: "[] \<notin> set (greedyPack_spec B g fs)"
  by (induction fs arbitrary: g) auto

lemma greedyPack_first: "g \<noteq> [] \<Longrightarrow> \<exists>r rest. greedyPack_spec B g fs = (g @ r) # rest"
proof (induction fs arbitrary: g)
  case Nil
  then show ?case by simp
next
  case (Cons f fs)
  show ?case
  proof (cases "int (length (concat g @ f)) > B")
    case True
    with Cons.prems show ?thesis by simp
  next
    case False
    from Cons.IH [of "g @ [f]"] obtain r rest where "greedyPack_spec B (g @ [f]) fs = ((g @ [f]) @ r) # rest"
      by auto
    with False show ?thesis by simp
  qed
qed

lemma greedyPack_overflow:
  "greedyPack_spec B g fs = pre @ a # b # post \<Longrightarrow> B < int (length (concat a @ hd b))"
proof (induction fs arbitrary: g pre)
  case Nil
  then show ?case by (auto split: if_splits simp: Cons_eq_append_conv)
next
  case (Cons f fs)
  show ?case
  proof (cases "g \<noteq> [] \<and> int (length (concat g @ f)) > B")
    case True
    with Cons.prems have eq: "g # greedyPack_spec B [f] fs = pre @ a # b # post" by simp
    show ?thesis
    proof (cases pre)
      case Nil
      with eq have a: "a = g" and b: "greedyPack_spec B [f] fs = b # post" by simp_all
      from greedyPack_first [of "[f]" B fs] b have "hd b = f" by auto
      with True a show ?thesis by simp
    next
      case (Cons p pre')
      with eq have "greedyPack_spec B [f] fs = pre' @ a # b # post" by simp
      then show ?thesis by (rule Cons.IH)
    qed
  next
    case False
    with Cons.prems have "greedyPack_spec B (g @ [f]) fs = pre @ a # b # post" by auto
    then show ?thesis by (rule Cons.IH)
  qed
qed

lemma fitted_snoc:
  assumes "fitted B g" "g \<noteq> [] \<longrightarrow> int (length (concat g @ f)) \<le> B"
  shows "fitted B (g @ [f])"
  unfolding fitted_def
proof (intro allI impI)
  fix p f' r assume h: "g @ [f] = p @ f' # r \<and> p \<noteq> []"
  show "int (length (concat p @ f')) \<le> B"
  proof (cases r rule: rev_cases)
    case Nil
    with h have "p = g" "f' = f" by auto
    with h assms(2) show ?thesis by auto
  next
    case (snoc r' x)
    with h have "g = p @ f' # r'" by auto
    with assms(1) h show ?thesis unfolding fitted_def by blast
  qed
qed

lemma greedyPack_fitted:
  "fitted B g \<Longrightarrow> h \<in> set (greedyPack_spec B g fs) \<Longrightarrow> fitted B h"
proof (induction fs arbitrary: g)
  case Nil
  then show ?case by (auto split: if_splits)
next
  case (Cons f fs)
  show ?case
  proof (cases "g \<noteq> [] \<and> int (length (concat g @ f)) > B")
    case True
    have "fitted B [f]" by (simp add: fitted_def Cons_eq_append_conv)
    with True Cons show ?thesis by auto
  next
    case False
    then have "fitted B (g @ [f])" using Cons.prems(1) by (intro fitted_snoc) auto
    with False Cons show ?thesis by auto
  qed
qed

lemma fitted_long_alone:
  assumes "fitted B g" "f \<in> set g" "B < int (length f)"
  shows "g = [f]"
proof -
  from assms(2) obtain p r where g: "g = p @ f # r" by (auto simp: in_set_conv_decomp)
  have p: "p = []"
  proof (rule ccontr)
    assume "p \<noteq> []"
    with assms(1) g have "int (length (concat p @ f)) \<le> B" unfolding fitted_def by blast
    with assms(3) show False by simp
  qed
  have "r = []"
  proof (cases r)
    case Nil then show ?thesis .
  next
    case (Cons f' r')
    with g p have "g = [f] @ f' # r'" by simp
    with assms(1) have "int (length (concat [f] @ f')) \<le> B" unfolding fitted_def by blast
    with assms(3) show ?thesis by simp
  qed
  with g p show ?thesis by simp
qed

text \<open>
  Claim C5. The cues of \<open>splitIntoSegments\<close> are the buffers of the greedy packer of the
  specification, each passed to the line wrapper: the buffers hold all fragments, in
  order and whole; wherever a buffer was closed, appending the fragment that starts the
  next buffer would have exceeded the budget \<open>maxCharsPerLine * maxLines\<close>; every fragment
  appended to a buffer that was not empty fitted the budget with it; and a fragment
  longer than the budget is alone in its buffer.
\<close>

theorem splitIntoSegments_greedy:
  "\<exists>groups.
     groups = greedyPack_spec (orDefault (maxCharsPerLine config) 42 * orDefault (maxLines config) 2) []
                (fragments script)
     \<and> concat groups = fragments script \<and> [] \<notin> set groups
     \<and> map text (splitIntoSegments script config)
         = map (\<lambda>g. formatSegmentText (concat g) (orDefault (maxCharsPerLine config) 42)
                  (orDefault (maxLines config) 2)) groups
     \<and> (\<forall>pre a b post. groups = pre @ a # b # post \<longrightarrow>
           orDefault (maxCharsPerLine config) 42 * orDefault (maxLines config) 2
             < int (length (concat a @ hd b)))
     \<and> (\<forall>g\<in>set groups. \<forall>p f r. g = p @ f # r \<and> p \<noteq> [] \<longrightarrow>
           int (length (concat p @ f))
             \<le> orDefault (maxCharsPerLine config) 42 * orDefault (maxLines config) 2)
     \<and> (\<forall>g\<in>set groups. \<forall>f\<in>set g.
           orDefault (maxCharsPerLine config) 42 * orDefault (maxLines config) 2 < int (length f)
           \<longrightarrow> g = [f])"
proof -
  let ?B = "orDefault (maxCharsPerLine config) 42 * orDefault (maxLines config) 2"
  let ?gs = "greedyPack_spec ?B [] (fragments script)"
  have fit: "fitted ?B g" if "g \<in> set ?gs" for g
    using that by (rule greedyPack_fitted [rotated]) (simp add: fitted_def)
  have "concat ?gs = fragments script" by (simp add: concat_greedyPack)
  moreover have "[] \<notin> set ?gs" by (rule greedyPack_no_empty)
  moreover have "map text (splitIntoSegments script config)
      = map (\<lambda>g. formatSegmentText (concat g) (orDefault (maxCharsPerLine config) 42)
               (orDefault (maxLines config) 2)) ?gs"
    by (simp only: splitIntoSegments_numbered text_numbered)
  moreover have "\<forall>pre a b post. ?gs = pre @ a # b # post \<longrightarrow> ?B < int (length (concat a @ hd b))"
    using greedyPack_overflow by blast
  moreover have "\<forall>g\<in>set ?gs. \<forall>p f r. g = p @ f # r \<and> p \<noteq> [] \<longrightarrow> int (length (concat p @ f)) \<le> ?B"
    using fit unfolding fitted_def by blast
  moreover have "\<forall>g\<in>set ?gs. \<forall>f\<in>set g. ?B < int (length f) \<longrightarrow> g = [f]"
    using fit fitted_long_alone by blast
  ultimately show ?thesis by blast
qed

text \<open>
  The greedy packing of four fragments into two cues under a budget of 8, where the
  first cue is closed because the third fragment would bring it to 11 code units.
\<close>

theorem splitIntoSegments_greedy_witness:
  "fragments (str ''ab!cd!efgh!i!'') = [str ''ab!'', str ''cd!'', str ''efgh!'', str ''i!'']
   \<and> map text (splitIntoSegments (str ''ab!cd!efgh!i!'')
        (defaultConfig\<lparr>maxCharsPerLine := Some 4, maxLines := Some 2\<rparr>))
      = [formatSegmentText (str ''ab!cd!'') 4 2, formatSegmentText (str ''efgh!i!'') 4 2]
   \<and> (8::int) < int (length (str ''ab!cd!'' @ str ''efgh!''))
   \<and> int (length (str ''ab!'' @ str ''cd!'')) \<le> (8::int)
   \<and> int (length (str ''efgh!'' @ str ''i!'')) \<le> (8::int)"
proof -
  let ?s = "str ''ab!cd!efgh!i!''"
  let ?c = "defaultConfig\<lparr>maxCharsPerLine := Some 4, maxLines := Some 2\<rparr>"
  have fr: "fragments ?s = [str ''ab!'', str ''cd!'', str ''efgh!'', str ''i!'']"
    by (simp add: fragments_def string_eval)
  have gs: "greedyPack_spec 8 [] (fragments ?s) = [[str ''ab!'', str ''cd!''], [str ''efgh!'', str ''i!'']]"
    unfolding fr by (simp add: str_def)
  from splitIntoSegments_greedy [of ?c ?s] gs
  have "map text (splitIntoSegments ?s ?c)
      = [formatSegmentText (str ''ab!cd!'') 4 2, formatSegmentText (str ''efgh!i!'') 4 2]"
    by (simp add: defaultConfig_def orDefault_def str_def)
  with fr show ?thesis by (simp add: str_def)
qed

text \<open>
  Claim C10. The text that a cue hands to the line wrapper is the concatenation of the
  fragments packed into it, one directly after the other: between two consecutive
  fragments of a cue nothing is inserted.
\<close>

theorem packed_cue_concatenates:
  "map text (splitIntoSegments script config)
     = map (\<lambda>g. formatSegmentText (concat g) (orDefault (maxCharsPerLine config) 42)
              (orDefault (maxLines config) 2))
         (greedyPack_spec (orDefault (maxCharsPerLine config) 42 * orDefault (maxLines config) 2) []
            (fragments script))
   \<and> concat (greedyPack_spec (orDefault (maxCharsPerLine config) 42 * orDefault (maxLines config) 2) []
         (fragments script)) = fragments script
   \<and> (\<forall>g\<in>set (greedyPack_spec (orDefault (maxCharsPerLine config) 42 * orDefault (maxLines config) 2) []
            (fragments script)).
        \<forall>p f1 f2 r. g = p @ f1 # f2 # r \<longrightarrow> concat g = concat p @ f1 @ f2 @ concat r)"
  by (simp only: splitIntoSegments_numbered text_numbered concat_greedyPack) auto

text \<open>Two fragments packed into one cue, with no space between them.\<close>

theorem packed_cue_concatenates_witness:
  "fragments (str ''Hi!Yo?'') = [str ''Hi!'', str ''Yo?'']
   \<and> map text (splitIntoSegments (str ''Hi!Yo?'') defaultConfig) = [str ''Hi!Yo?'']"
proof -
  let ?s = "str ''Hi!Yo?''"
  have fr: "fragments ?s = [str ''Hi!'', str ''Yo?'']"
    by (simp add: fragments_def string_eval)
  have gs: "greedyPack_spec 84 [] (fragments ?s) = [[str ''Hi!'', str ''Yo?'']]"
    unfolding fr by (simp add: str_def)
  have fm: "formatSegmentText (str ''Hi!Yo?'') 42 2 = str ''Hi!Yo?''"
    by (simp add: formatSegmentText_def string_eval)
  from packed_cue_concatenates [of ?s defaultConfig] gs fm
  have "map text (splitIntoSegments ?s defaultConfig) = [str ''Hi!Yo?'']"
    by (simp add: defaultConfig_def orDefault_def str_def)
  with fr show ?thesis by simp
qed

section \<open>The line wrapper\<close>

text \<open>
  Claim C6 fails on the code. The comma of \<open>abcd,efg\<close> is an admissible break point right
  after the fourth character, yet the wrapper cuts after \<open>abcd\<close> by length and the second
  line starts with the comma: \<open>currentLine\<close> is flushed as soon as it reaches
  \<open>maxCharsPerLine\<close>, so the test for a break point at the top of the loop never sees a
  full line.
\<close>

theorem formatSegmentText_hard_cut_at_comma:
  "formatSegmentText (str ''abcd,efg'') 4 2 = str ''abcd'' @ [LF] @ str '',efg''"
  by (simp add: wrap_eval string_eval)

section \<open>The timestamp codec\<close>








lemma splitOn_not_Nil: "splitOn sep s \<noteq> []"
  by (induction s) (auto split: list.splits)













section \<open>The timeline\<close>


lemma length_assignLoop: "length (assignLoop rs minD maxD t segs) = length segs"
  by (induction segs arbitrary: t) (simp_all add: Let_def)










lemma length_numbered: "length (numbered i ts) = length ts"
  by (induction ts arbitrary: i) simp_all



lemmas cue_eval = cueList_def splitIntoSegments_def defaultConfig_def newSegment_def
lemmas time_eval = assignTimestamps_def charCount_def cueDuration_def formatTimestamp_def
  orDefault_def LF_def Let_def










section \<open>Line lengths\<close>

lemma concat_codePoints: "concat (codePoints s) = s"
  by (induction s rule: codePoints.induct) simp_all



























section \<open>The styled text of a cue\<close>

lemmas ass_eval = prepareAssText_def getAssStyle_def defaultConfig_def emptyStyle_def escapeAss_def
  defaultHighlightPattern_def replaceMatches_def isNumHead_def isNumTail_def isUpper_def
  isAlnum_def isDigit_def highlightMarker_def

text \<open>
  Claim C7 fails on the code. The steps run in the order the claim gives, and for that
  very reason the line break is not rendered as the escape \<open>\N\<close>: the first step writes
  \<open>\N\<close>, and the second step, which escapes every backslash, doubles the backslash of
  that escape. The cue text \<open>a\<close>, line feed, \<open>b\<close> is emitted as \<open>{\fad(120,150)}a\\Nb\<close>,
  whatever the \<open>RegExp\<close> constructor does.
\<close>

theorem prepareAssText_doubles_line_break_escape:
  "prepareAssText RegExp [97, LF, 98] defaultConfig (getAssStyle defaultConfig)
     = Inr ([123, 92] @ str ''fad(120,150)'' @ [125] @ [97, 92, 92, 78, 98])"
  by (simp add: ass_eval floor_eval string_eval) (simp add: digits_eval)

section \<open>Errors of the node\<close>

lemma splitOn_append: "splitOn sep (xs @ sep # ys) = splitOn sep xs @ splitOn sep ys"
proof (induction xs)
  case Nil
  then show ?case by simp
next
  case (Cons x xs)
  obtain l ls where "splitOn sep xs = l # ls"
    using splitOn_not_Nil [of sep xs] by (cases "splitOn sep xs") auto
  with Cons show ?case by simp
qed

lemma splitOn_three: "\<exists>a b c r. splitOn sep (xs @ sep # ys @ sep # zs) = a # b # c # r"
proof -
  obtain a as where a: "splitOn sep xs = a # as"
    using splitOn_not_Nil [of sep xs] by (cases "splitOn sep xs") auto
  obtain b bs where b: "splitOn sep ys = b # bs"
    using splitOn_not_Nil [of sep ys] by (cases "splitOn sep ys") auto
  obtain c cs where c: "splitOn sep zs = c # cs"
    using splitOn_not_Nil [of sep zs] by (cases "splitOn sep zs") auto
  have "Suc (Suc (Suc 0)) \<le> length (splitOn sep (xs @ sep # ys @ sep # zs))"
    by (simp add: splitOn_append a b c)
  then show ?thesis by (auto simp: Suc_le_length_iff)
qed

lemma formatTimestamp_colons: "\<exists>xs ys zs. formatTimestamp t = xs @ 58 # ys @ 58 # zs"
proof (cases t)
  case NaN
  have "formatTimestamp NaN = str ''NaN'' @ 58 # str ''NaN'' @ 58 # str ''NaN,NaN''"
    by (simp add: formatTimestamp_def str_def)
  with NaN show ?thesis by blast
next
  case (Num s)
  then show ?thesis by (simp add: formatTimestamp_def Let_def) blast
qed

lemma parseTimestamp_formatTimestamp: "\<exists>v. parseTimestamp (formatTimestamp t) = Inr v"
proof -
  obtain xs ys zs where f: "formatTimestamp t = xs @ 58 # ys @ 58 # zs"
    using formatTimestamp_colons by blast
  obtain a b c r where "splitOn 58 (xs @ 58 # ys @ 58 # zs) = a # b # c # r"
    using splitOn_three by blast
  then show ?thesis by (simp add: parseTimestamp_def f Let_def)
qed

lemma formatAsstime_formatTimestamp: "\<exists>v. formatAsstime (formatTimestamp t) = Inr v"
proof -
  obtain v where "parseTimestamp (formatTimestamp t) = Inr v"
    using parseTimestamp_formatTimestamp by blast
  then show ?thesis by (cases v) (simp_all add: formatAsstime_def Let_def)
qed

lemma assignLoop_stamps:
  "c \<in> set (assignLoop rs minD maxD t segs) \<Longrightarrow>
     \<exists>t1 t2. startTime c = formatTimestamp t1 \<and> endTime c = formatTimestamp t2"
proof (induction segs arbitrary: t)
  case Nil
  then show ?case by simp
next
  case (Cons seg segs)
  then show ?case by (auto simp: Let_def)
qed

lemma prepareAssText_result:
  "(badPattern RegExp config \<longrightarrow> prepareAssText RegExp t config st = Inl SyntaxError)
   \<and> (\<not> badPattern RegExp config \<longrightarrow> (\<exists>v. prepareAssText RegExp t config st = Inr v))"
  by (auto simp: prepareAssText_def badPattern_def Let_def split: option.splits)

lemma dialogue_result:
  assumes "startTime c = formatTimestamp t1" "endTime c = formatTimestamp t2"
  shows "(badPattern RegExp config \<longrightarrow> dialogue RegExp config st c = Inl SyntaxError)
   \<and> (\<not> badPattern RegExp config \<longrightarrow> (\<exists>v. dialogue RegExp config st c = Inr v))"
proof -
  obtain a where a: "formatAsstime (startTime c) = Inr a"
    using formatAsstime_formatTimestamp [of t1] assms(1) by auto
  obtain b where b: "formatAsstime (endTime c) = Inr b"
    using formatAsstime_formatTimestamp [of t2] assms(2) by auto
  show ?thesis
    using prepareAssText_result [of RegExp config "text c" st]
    by (auto simp: dialogue_def a b)
qed

lemma mapResult_all_fail:
  "xs \<noteq> [] \<Longrightarrow> \<forall>x\<in>set xs. f x = Inl e \<Longrightarrow> mapResult f xs = Inl e"
  by (cases xs) simp_all

lemma mapResult_all_ok:
  "\<forall>x\<in>set xs. \<exists>v. f x = Inr v \<Longrightarrow> \<exists>vs. mapResult f xs = Inr vs"
  by (induction xs) auto

lemma removeCR_not_blank: "\<not> list_all isSpace s \<Longrightarrow> \<not> list_all isSpace (removeCR s)"
  by (auto simp: list_all_iff removeCR_def isSpace_def CR_def)

lemma fragments_not_Nil:
  assumes "\<not> list_all isSpace script"
  shows "fragments script \<noteq> []"
proof -
  obtain w where w: "list_all isSpace w" "concat (splitBySentences script) @ w = removeCR script"
    using splitBySentences_remainder by blast
  from assms have "\<not> list_all isSpace (removeCR script)" by (rule removeCR_not_blank)
  with w have "\<not> list_all isSpace (concat (splitBySentences script))"
    by (metis list_all_append)
  then obtain s where s: "s \<in> set (splitBySentences script)" "\<not> list_all isSpace s"
    by (auto simp: list_all_iff)
  then have "trim s \<noteq> []" by (simp add: trim_Nil_iff)
  with s(1) show ?thesis by (auto simp: fragments_def filter_empty_conv)
qed

lemma greedyPack_not_Nil: "fs \<noteq> [] \<Longrightarrow> greedyPack_spec B [] fs \<noteq> []"
  using concat_greedyPack [of B "[]" fs] by auto

lemma cueList_not_Nil:
  assumes "\<not> list_all isSpace script"
  shows "cueList script config \<noteq> []"
proof -
  have "length (cueList script config)
      = length (greedyPack_spec (orDefault (maxCharsPerLine config) 42 * orDefault (maxLines config) 2)
          [] (fragments script))"
    by (simp add: cueList_def assignTimestamps_def length_assignLoop splitIntoSegments_numbered
        length_numbered)
  moreover have "greedyPack_spec (orDefault (maxCharsPerLine config) 42 * orDefault (maxLines config) 2)
          [] (fragments script) \<noteq> []"
    using fragments_not_Nil [OF assms] by (rule greedyPack_not_Nil)
  ultimately show ?thesis by auto
qed

lemma cueList_stamps:
  "c \<in> set (cueList script config) \<Longrightarrow>
     \<exists>t1 t2. startTime c = formatTimestamp t1 \<and> endTime c = formatTimestamp t2"
  unfolding cueList_def assignTimestamps_def by (rule assignLoop_stamps)

lemma calculateTotalDuration_cueList: "\<exists>v. calculateTotalDuration (cueList script config) = Inr v"
proof (cases "cueList script config = []")
  case True
  then show ?thesis by (simp add: calculateTotalDuration_def)
next
  case False
  then have "last (cueList script config) \<in> set (cueList script config)" by simp
  then obtain t2 where "endTime (last (cueList script config)) = formatTimestamp t2"
    using cueList_stamps by blast
  with False parseTimestamp_formatTimestamp [of t2] show ?thesis
    by (simp add: calculateTotalDuration_def)
qed

lemma generateASS_result:
  assumes "\<not> list_all isSpace script"
  shows "(badPattern RegExp config \<longrightarrow> generateASS RegExp (cueList script config) config = Inl SyntaxError)
   \<and> (\<not> badPattern RegExp config \<longrightarrow> (\<exists>v. generateASS RegExp (cueList script config) config = Inr v))"
proof (cases "badPattern RegExp config")
  case True
  have "\<forall>c\<in>set (cueList script config). dialogue RegExp config (getAssStyle config) c = Inl SyntaxError"
    using True dialogue_result cueList_stamps by blast
  with cueList_not_Nil [OF assms]
  have "mapResult (dialogue RegExp config (getAssStyle config)) (cueList script config) = Inl SyntaxError"
    by (rule mapResult_all_fail)
  with True show ?thesis by (simp add: generateASS_def)
next
  case False
  have "\<forall>c\<in>set (cueList script config). \<exists>v. dialogue RegExp config (getAssStyle config) c = Inr v"
    using False dialogue_result cueList_stamps by blast
  then obtain vs where
    "mapResult (dialogue RegExp config (getAssStyle config)) (cueList script config) = Inr vs"
    using mapResult_all_ok by blast
  with False show ?thesis by (simp add: generateASS_def)
qed

text \<open>
  Claim C4, as amended. On every script and configuration the node either returns the
  cue list with its rendering or fails with one of two errors, before anything is
  returned: with \<open>Script is empty\<close> exactly when the script is empty or white space only,
  and with the \<open>SyntaxError\<close> of the \<open>RegExp\<close> constructor exactly when the script is not
  blank, the format is \<open>ass\<close> and the configuration names a highlight pattern that does
  not compile. No value of \<open>minDuration\<close>, \<open>maxDuration\<close> or \<open>readingSpeed\<close> makes it fail.
\<close>

theorem executeInternal_errors:
  "(list_all isSpace rawScript \<longrightarrow> executeInternal RegExp rawScript config = Inl ScriptEmpty)
   \<and> (\<not> list_all isSpace rawScript \<and> orDefault (format config) srt = ass \<and> badPattern RegExp config
        \<longrightarrow> executeInternal RegExp rawScript config = Inl SyntaxError)
   \<and> (\<not> list_all isSpace rawScript \<and> \<not> (orDefault (format config) srt = ass \<and> badPattern RegExp config)
        \<longrightarrow> (\<exists>out. executeInternal RegExp rawScript config = Inr out
                  \<and> segments out = cueList rawScript config))"
proof (intro conjI impI)
  assume "list_all isSpace rawScript"
  then have "trim rawScript = []" by (simp add: trim_Nil_iff)
  then show "executeInternal RegExp rawScript config = Inl ScriptEmpty"
    by (simp add: executeInternal_def)
next
  assume h: "\<not> list_all isSpace rawScript \<and> orDefault (format config) srt = ass \<and> badPattern RegExp config"
  then have ne: "rawScript \<noteq> []" "trim rawScript \<noteq> []" by (auto simp: trim_Nil_iff)
  from h generateASS_result [of rawScript RegExp config]
  have "generateASS RegExp (cueList rawScript config) config = Inl SyntaxError" by blast
  with h ne show "executeInternal RegExp rawScript config = Inl SyntaxError"
    by (simp add: executeInternal_def Let_def cueList_def)
next
  assume h: "\<not> list_all isSpace rawScript \<and> \<not> (orDefault (format config) srt = ass \<and> badPattern RegExp config)"
  then have ne: "rawScript \<noteq> []" "trim rawScript \<noteq> []" by (auto simp: trim_Nil_iff)
  obtain tot where tot: "calculateTotalDuration (cueList rawScript config) = Inr tot"
    using calculateTotalDuration_cueList by blast
  show "\<exists>out. executeInternal RegExp rawScript config = Inr out \<and> segments out = cueList rawScript config"
  proof (cases "orDefault (format config) srt")
    case srt
    with ne tot show ?thesis by (simp add: executeInternal_def Let_def cueList_def)
  next
    case vtt
    with ne tot show ?thesis by (simp add: executeInternal_def Let_def cueList_def)
  next
    case ass
    with h generateASS_result [of rawScript RegExp config]
    obtain v where "generateASS RegExp (cueList rawScript config) config = Inr v" by blast
    with ass ne tot show ?thesis by (simp add: executeInternal_def Let_def cueList_def)
  qed
qed

text \<open>
  The three cases: a blank script, a malformed pattern rendered in the styled format,
  and a script under the default configuration.
\<close>

theorem executeInternal_errors_witness:
  "executeInternal (\<lambda>p. None) (str ''  '') defaultConfig = Inl ScriptEmpty
   \<and> executeInternal (\<lambda>p. None) (str ''a'')
        (defaultConfig\<lparr>format := Some ass,
           highlight := Some \<lparr>enabled = None, color = None, pattern = Some (str ''('')\<rparr>\<rparr>)
       = Inl SyntaxError
   \<and> (\<exists>out. executeInternal (\<lambda>p. None) (str ''a'') defaultConfig = Inr out
         \<and> segments out = cueList (str ''a'') defaultConfig)"
proof -
  let ?bad = "defaultConfig\<lparr>format := Some ass,
           highlight := Some \<lparr>enabled = None, color = None, pattern = Some (str ''('')\<rparr>\<rparr>"
  have blank: "list_all isSpace (str ''  '')" by (simp add: str_def isSpace_def)
  have nonblank: "\<not> list_all isSpace (str ''a'')" by (simp add: str_def isSpace_def)
  have bad: "orDefault (format ?bad) srt = ass \<and> badPattern (\<lambda>p. None) ?bad"
    by (simp add: defaultConfig_def orDefault_def badPattern_def str_def)
  have good: "\<not> (orDefault (format defaultConfig) srt = ass \<and> badPattern (\<lambda>p. None) defaultConfig)"
    by (simp add: defaultConfig_def orDefault_def)
  from executeInternal_errors [of "str ''  ''" "\<lambda>p. None" defaultConfig] blank
  have 1: "executeInternal (\<lambda>p. None) (str ''  '') defaultConfig = Inl ScriptEmpty" by blast
  from executeInternal_errors [of "str ''a''" "\<lambda>p. None" ?bad] nonblank bad
  have 2: "executeInternal (\<lambda>p. None) (str ''a'') ?bad = Inl SyntaxError" by blast
  from executeInternal_errors [of "str ''a''" "\<lambda>p. None" defaultConfig] nonblank good
  have 3: "\<exists>out. executeInternal (\<lambda>p. None) (str ''a'') defaultConfig = Inr out
         \<and> segments out = cueList (str ''a'') defaultConfig" by blast
  from 1 2 3 show ?thesis by blast
qed

text \<open>
  Claim C4 as stated fails: with \<open>minDuration = 3 > maxDuration = 1\<close> and a reading speed
  of 0 the node raises nothing and returns one cue of three seconds.
\<close>

theorem executeInternal_accepts_invalid_timing_counterexample:
  "executeInternal (\<lambda>p. None) (str ''a'')
     (defaultConfig\<lparr>readingSpeed := Some 0, minDuration := Some 3, maxDuration := Some 1\<rparr>)
   = Inr \<lparr>dataFormat = srt,
          segments = [\<lparr>index = 1, startTime = str ''00:00:00,000'', endTime = str ''00:00:03,000'',
                       text = str ''a''\<rparr>],
          totalDuration = Num 3,
          outputContent = str ''1'' @ [LF] @ str ''00:00:00,000 --> 00:00:03,000'' @ [LF]
                          @ str ''a'' @ [LF]\<rparr>"
  apply (simp add: executeInternal_def cue_eval wrap_eval string_eval)
  apply (simp add: time_eval floor_eval calculateTotalDuration_def)
  apply (simp add: digits_eval parse_eval)
  apply (simp add: time_eval floor_eval generateSRT_def srtBlock_def)
  apply (simp add: digits_eval str_def)
  done

end
